theory Spec2Isabelle
  imports Complex_Main "HOL-Library.AList"
begin

section \<open>Python values used by the dashboard\<close>

text \<open>
  Exceptions are values.  Every \<open>raise\<close> inside the modelled functions, and every
  exception a library call of the source may throw, is one of these constructors; a
  \<open>try\<close>/\<open>except Exception\<close> of the source is a case distinction on \<open>Inl\<close>.
\<close>

datatype error =
    KeyError
  | ZeroDivisionError
  | ValueError
  | TypeError
  | OverflowError
  | AttributeError
  | JSONDecodeError

subsection \<open>Floating-point numbers\<close>

text \<open>
  A Python \<open>float\<close> is an IEEE-754 binary64 number.  A finite float is modelled as the
  real number it denotes, and every arithmetic operation rounds the exact result to the
  nearest number with a 53-bit significand, ties to the even significand (\<open>fl\<close>).  The
  exponent is bounded below (gradual underflow at \<open>2 ^ - 1074\<close>) but not above: infinities
  and NaN are outside the model.

  \<open>bit_length\<close> is Python's \<open>int.bit_length\<close>; \<open>float_exponent x\<close> is the integer \<open>e\<close> with
  \<open>2 ^ e \<le> \<bar>x\<bar> < 2 ^ (e + 1)\<close>, computed from the integer part of \<open>\<bar>x\<bar>\<close> or of \<open>1 / \<bar>x\<bar>\<close>.
\<close>

fun bit_length :: "nat \<Rightarrow> nat" where
  "bit_length n = (if n = 0 then 0 else Suc (bit_length (n div 2)))"

declare bit_length.simps [simp del]

definition float_exponent :: "real \<Rightarrow> int" where
  "float_exponent x =
     (if 1 \<le> \<bar>x\<bar> then int (bit_length (nat \<lfloor>\<bar>x\<bar>\<rfloor>)) - 1
      else - int (bit_length (nat (\<lceil>1 / \<bar>x\<bar>\<rceil> - 1))))"

definition pow2 :: "int \<Rightarrow> real" where
  "pow2 k = (if 0 \<le> k then 2 ^ nat k else 1 / 2 ^ nat (- k))"

definition round_half_even :: "real \<Rightarrow> int" where
  "round_half_even x =
     (let f = \<lfloor>x\<rfloor>; d = x - of_int f
      in if d < 1 / 2 then f
         else if 1 / 2 < d then f + 1
         else if even f then f else f + 1)"

definition fl :: "real \<Rightarrow> real" where
  "fl x =
     (if x = 0 then 0
      else let u = pow2 (max (float_exponent x) (- 1022) - 52)
           in of_int (round_half_even (x / u)) * u)"

definition fadd :: "real \<Rightarrow> real \<Rightarrow> real" where
  "fadd x y = fl (x + y)"

definition fsub :: "real \<Rightarrow> real \<Rightarrow> real" where
  "fsub x y = fl (x - y)"

definition fmul :: "real \<Rightarrow> real \<Rightarrow> real" where
  "fmul x y = fl (x * y)"

text \<open>Python's \<open>/\<close> on floats raises \<open>ZeroDivisionError\<close> on a zero divisor.\<close>

definition fdiv :: "real \<Rightarrow> real \<Rightarrow> error + real" where
  "fdiv x y = (if y = 0 then Inl ZeroDivisionError else Inr (fl (x / y)))"

subsection \<open>Dictionaries\<close>

text \<open>
  A \<open>dict\<close> is an association list in insertion order.  \<open>k in d\<close> is \<open>dict_contains\<close>;
  \<open>d[k] = v\<close> is \<open>dict_set\<close>: it overwrites the value of a key already present, in
  place, and appends a new key at the end.  \<open>d.update(other)\<close> assigns the items of
  \<open>other\<close> in their order.
\<close>

definition dict_contains :: "('k \<times> 'v) list \<Rightarrow> 'k \<Rightarrow> bool" where
  "dict_contains d k = (k \<in> set (map fst d))"

definition dict_set :: "('k \<times> 'v) list \<Rightarrow> 'k \<Rightarrow> 'v \<Rightarrow> ('k \<times> 'v) list" where
  "dict_set d k v = AList.update k v d"

definition dict_update :: "('k \<times> 'v) list \<Rightarrow> ('k \<times> 'v) list \<Rightarrow> ('k \<times> 'v) list" where
  "dict_update d other = fold (\<lambda>(k, v) acc. dict_set acc k v) other d"

section \<open>simulation\_helpers.py\<close>

text \<open>
  The simulation engine (QSDsan) is outside the repository.  The model of
  \<open>run_simulation\<close> returns what the function hands to the engine: the keyword arguments
  of the process model, the influent stream, the reactor volumes and temperature, the
  initial concentrations and the arguments of \<open>simulate\<close>.  \<open>get_mw\<close> is the library's
  molecular-weight function, a parameter of the model.
\<close>

record waste_stream =
  stream_T :: real
  flow_Q :: real
  concentrations :: "(string \<times> real) list"
  units :: "string \<times> string"

record simulate_args =
  t_span :: "real \<times> real"
  t_eval :: "real list"
  solver_method :: string

record reactor_setup =
  adm1_kwargs :: "(string \<times> real) list"
  inf :: waste_stream
  V_liq :: real
  V_gas :: real
  reactor_T :: real
  init_conds :: "(string \<times> real) list"
  simulate_call :: "error + simulate_args"

text \<open>
  \<open>numpy.arange(start, stop, step)\<close> on floats: the length is
  \<open>ceil((stop - start) / step)\<close>, computed in floating point; the first two elements are
  \<open>start\<close> and \<open>start + step\<close>, and element \<open>i\<close> is \<open>start + i * delta\<close> with
  \<open>delta = (start + step) - start\<close>.  A zero step raises.
\<close>

definition np_arange :: "real \<Rightarrow> real \<Rightarrow> real \<Rightarrow> error + real list" where
  "np_arange start stop step =
     (case fdiv (fsub stop start) step of
        Inl e \<Rightarrow> Inl e
      | Inr q \<Rightarrow>
          let n = nat \<lceil>q\<rceil>;
              next = fadd start step;
              delta = fsub next start
          in Inr (take n (start # next #
                    map (\<lambda>i. fadd start (fmul (real i) delta)) [2..<n])))"

definition run_simulation_default_conc :: "((string \<times> nat) list \<Rightarrow> real) \<Rightarrow> (string \<times> real) list" where
  "run_simulation_default_conc get_mw =
     (let C_mw = get_mw [(''C'', 1)];
          N_mw = get_mw [(''N'', 1)]
      in [(''S_su'', fl 0.01),
          (''S_aa'', fl 0.001),
          (''S_fa'', fl 0.001),
          (''S_va'', fl 0.001),
          (''S_bu'', fl 0.001),
          (''S_pro'', fl 0.001),
          (''S_ac'', fl 0.001),
          (''S_h2'', fl 0.00000001),
          (''S_ch4'', fl 0.00001),
          (''S_IC'', fmul (fl 0.04) C_mw),
          (''S_IN'', fmul (fl 0.01) N_mw),
          (''S_I'', fl 0.02),
          (''X_c'', 2),
          (''X_ch'', 5),
          (''X_pr'', 20),
          (''X_li'', 5),
          (''X_su'', fl 0.01),
          (''X_aa'', fl 0.01),
          (''X_fa'', fl 0.01),
          (''X_c4'', fl 0.01),
          (''X_pro'', fl 0.01),
          (''X_ac'', fl 0.01),
          (''X_h2'', fl 0.01),
          (''X_I'', 25),
          (''S_cat'', fl 0.04),
          (''S_an'', fl 0.02)])"

definition default_init_conds :: "((string \<times> nat) list \<Rightarrow> real) \<Rightarrow> (string \<times> real) list" where
  "default_init_conds get_mw =
     (let C_mw = get_mw [(''C'', 1)];
          N_mw = get_mw [(''N'', 1)]
      in [(''S_su'', fmul (fl 0.0124) 1000),
          (''S_aa'', fmul (fl 0.0055) 1000),
          (''S_fa'', fmul (fl 0.1074) 1000),
          (''S_va'', fmul (fl 0.0123) 1000),
          (''S_bu'', fmul (fl 0.0140) 1000),
          (''S_pro'', fmul (fl 0.0176) 1000),
          (''S_ac'', fmul (fl 0.0893) 1000),
          (''S_h2'', fmul (fl 0.00000025055) 1000),
          (''S_ch4'', fmul (fl 0.0555) 1000),
          (''S_IC'', fmul (fmul (fl 0.0951) C_mw) 1000),
          (''S_IN'', fmul (fmul (fl 0.0945) N_mw) 1000),
          (''S_I'', fmul (fl 0.1309) 1000),
          (''X_ch'', fmul (fl 0.0205) 1000),
          (''X_pr'', fmul (fl 0.0842) 1000),
          (''X_li'', fmul (fl 0.0436) 1000),
          (''X_su'', fmul (fl 0.3122) 1000),
          (''X_aa'', fmul (fl 0.9317) 1000),
          (''X_fa'', fmul (fl 0.3384) 1000),
          (''X_c4'', fmul (fl 0.3258) 1000),
          (''X_pro'', fmul (fl 0.1011) 1000),
          (''X_ac'', fmul (fl 0.6772) 1000),
          (''X_h2'', fmul (fl 0.2848) 1000),
          (''X_I'', fmul (fl 17.2162) 1000)])"

definition run_simulation ::
  "((string \<times> nat) list \<Rightarrow> real) \<Rightarrow> real \<Rightarrow> real \<Rightarrow> real \<Rightarrow> (string \<times> real) list \<Rightarrow>
   (string \<times> real) list \<Rightarrow> real \<Rightarrow> real \<Rightarrow> string \<Rightarrow> bool \<Rightarrow> reactor_setup" where
  "run_simulation get_mw Q Temp HRT concentrations_arg kinetic_params simulation_time t_step
       method_arg use_kinetics =
     (let adm1 = (if use_kinetics \<and> kinetic_params \<noteq> [] then kinetic_params else []);
          default_conc =
            fold (\<lambda>(k, v) d. if dict_contains d k then dict_set d k v else d)
              concentrations_arg (run_simulation_default_conc get_mw);
          influent = \<lparr>stream_T = Temp, flow_Q = Q, concentrations = default_conc,
                      units = (''m3/d'', ''kg/m3'')\<rparr>
      in \<lparr>adm1_kwargs = adm1,
          inf = influent,
          V_liq = fmul Q HRT,
          V_gas = fmul (fmul Q HRT) (fl 0.1),
          reactor_T = Temp,
          init_conds = default_init_conds get_mw,
          simulate_call =
            (case np_arange 0 (fadd simulation_time t_step) t_step of
               Inl e \<Rightarrow> Inl e
             | Inr grid \<Rightarrow>
                 Inr \<lparr>t_span = (0, simulation_time), t_eval = grid, solver_method = method_arg\<rparr>)\<rparr>)"

definition create_influent_stream_default_conc ::
  "((string \<times> nat) list \<Rightarrow> real) \<Rightarrow> (string \<times> real) list" where
  "create_influent_stream_default_conc get_mw =
     (let C_mw = get_mw [(''C'', 1)];
          N_mw = get_mw [(''N'', 1)]
      in [(''S_su'', fl 0.01),
          (''S_aa'', fl 0.001),
          (''S_fa'', fl 0.001),
          (''S_va'', fl 0.001),
          (''S_bu'', fl 0.001),
          (''S_pro'', fl 0.001),
          (''S_ac'', fl 0.001),
          (''S_h2'', fl 0.00000001),
          (''S_ch4'', fl 0.00001),
          (''S_IC'', fmul (fl 0.04) C_mw),
          (''S_IN'', fmul (fl 0.01) N_mw),
          (''S_I'', fl 0.02),
          (''X_c'', 2),
          (''X_ch'', 5),
          (''X_pr'', 20),
          (''X_li'', 5),
          (''X_su'', fl 0.01),
          (''X_aa'', fl 0.01),
          (''X_fa'', fl 0.01),
          (''X_c4'', fl 0.01),
          (''X_pro'', fl 0.01),
          (''X_ac'', fl 0.01),
          (''X_h2'', fl 0.01),
          (''X_I'', 25),
          (''S_cat'', fl 0.04),
          (''S_an'', fl 0.02)])"

definition create_influent_stream ::
  "((string \<times> nat) list \<Rightarrow> real) \<Rightarrow> real \<Rightarrow> real \<Rightarrow> (string \<times> real) list \<Rightarrow> waste_stream" where
  "create_influent_stream get_mw Q Temp concentrations_arg =
     (let default_conc =
            fold (\<lambda>(k, value) d. if dict_contains d k then dict_set d k value else d)
              concentrations_arg (create_influent_stream_default_conc get_mw)
      in \<lparr>stream_T = Temp, flow_Q = Q, concentrations = default_conc,
          units = (''m3/d'', ''kg/m3'')\<rparr>)"

subsection \<open>The gas stream panel\<close>

text \<open>
  A stream either has no attribute \<open>imass\<close> or carries the mass flows of its components;
  indexing \<open>imass\<close> with a component it does not have raises.
\<close>

record gas_stream =
  imass :: "(string \<times> real) list option"

definition imass_get :: "(string \<times> real) list \<Rightarrow> string \<Rightarrow> error + real" where
  "imass_get im k = (case map_of im k of None \<Rightarrow> Inl KeyError | Some v \<Rightarrow> Inr v)"

definition bind_err :: "error + 'a \<Rightarrow> ('a \<Rightarrow> error + 'b) \<Rightarrow> error + 'b" where
  "bind_err m f = (case m of Inl e \<Rightarrow> Inl e | Inr x \<Rightarrow> f x)"

definition MW_CO2 :: real where "MW_CO2 = fl 44.01"
definition MW_C :: real where "MW_C = fl 12.01"
definition DENSITY_CH4 :: real where "DENSITY_CH4 = fl 0.716"
definition DENSITY_CO2 :: real where "DENSITY_CO2 = fl 1.977"
definition DENSITY_H2 :: real where "DENSITY_H2 = fl 0.0899"
definition COD_CH4 :: real where "COD_CH4 = 4"
definition COD_H2 :: real where "COD_H2 = 8"

text \<open>
  The volumetric flows of methane, carbon dioxide and hydrogen, as the \<open>try\<close> block
  computes them: all zero when the stream has no \<open>imass\<close>.
\<close>

definition gas_flows :: "gas_stream \<Rightarrow> error + (real \<times> real \<times> real)" where
  "gas_flows stream =
     (case imass stream of
        None \<Rightarrow> Inr (0, 0, 0)
      | Some im \<Rightarrow>
          bind_err (imass_get im ''S_ch4'') (\<lambda>s_ch4.
          let mass_cod_ch4 = fmul s_ch4 24 in
          bind_err (fdiv mass_cod_ch4 COD_CH4) (\<lambda>mass_ch4.
          bind_err (fdiv mass_ch4 DENSITY_CH4) (\<lambda>methane_flow.
          bind_err (imass_get im ''S_IC'') (\<lambda>s_ic.
          let mass_c = fmul s_ic 24 in
          bind_err (fdiv MW_CO2 MW_C) (\<lambda>ratio.
          let mass_co2 = fmul mass_c ratio in
          bind_err (fdiv mass_co2 DENSITY_CO2) (\<lambda>co2_flow.
          bind_err (imass_get im ''S_h2'') (\<lambda>s_h2.
          let mass_cod_h2 = fmul s_h2 24 in
          bind_err (fdiv mass_cod_h2 COD_H2) (\<lambda>mass_h2.
          bind_err (fdiv mass_h2 DENSITY_H2) (\<lambda>h2_flow.
          Inr (methane_flow, co2_flow, h2_flow)))))))))))"

text \<open>\<open>(flow / flow_vol_total * scale) if flow_vol_total > 0 else 0\<close>\<close>

definition gas_fraction :: "real \<Rightarrow> real \<Rightarrow> real \<Rightarrow> error + real" where
  "gas_fraction flow flow_vol_total scale =
     (if 0 < flow_vol_total
      then bind_err (fdiv flow flow_vol_total) (\<lambda>q. Inr (fmul q scale))
      else Inr 0)"

record gas_display =
  flow_vol_total :: real
  methane_pct :: real
  co2_pct :: real
  h2_ppmv :: real
  gas_error :: "error option"

definition gas_try :: "gas_stream \<Rightarrow> error + (real \<times> real \<times> real \<times> real)" where
  "gas_try stream =
     bind_err (gas_flows stream) (\<lambda>(methane_flow, co2_flow, h2_flow).
     let vol_total = fadd (fadd methane_flow co2_flow) h2_flow in
     bind_err (gas_fraction methane_flow vol_total 100) (\<lambda>m_pct.
     bind_err (gas_fraction co2_flow vol_total 100) (\<lambda>c_pct.
     bind_err (gas_fraction h2_flow vol_total 1000000) (\<lambda>h_ppmv.
     Inr (vol_total, m_pct, c_pct, h_ppmv)))))"

text \<open>
  The four numbers \<open>display_gas_stream\<close> puts in its table, and the exception its handler
  reports with \<open>st.error\<close>, if any.
\<close>

definition display_gas_stream :: "gas_stream \<Rightarrow> gas_display" where
  "display_gas_stream stream =
     (case gas_try stream of
        Inr (vol_total, m_pct, c_pct, h_ppmv) \<Rightarrow>
          \<lparr>flow_vol_total = vol_total, methane_pct = m_pct, co2_pct = c_pct, h2_ppmv = h_ppmv,
           gas_error = None\<rparr>
      | Inl e \<Rightarrow>
          \<lparr>flow_vol_total = 0, methane_pct = 0, co2_pct = 0, h2_ppmv = 0,
           gas_error = Some e\<rparr>)"

section \<open>app.py: extraction of the AI recommendations\<close>

text \<open>
  The value \<open>json.loads\<close> returns: \<open>None\<close>, a bool, an int, a float, a str, a list or a
  dict with string keys (an association list in the order of the items).
\<close>

datatype pyval =
    PNone
  | PBool bool
  | PInt int
  | PFloat real
  | PStr string
  | PList "pyval list"
  | PDict "(string \<times> pyval) list"

text \<open>
  \<open>re.search(r'\{.*\}', response_text, re.DOTALL)\<close>: the leftmost match starts at the
  first opening brace and, the star being greedy and the dot matching every character,
  ends at the last closing brace of the text; there is a match exactly when a closing
  brace follows the first opening brace.  \<open>json_match\<close> is the matched substring.
\<close>

definition json_match :: "string \<Rightarrow> string option" where
  "json_match response_text =
     (case dropWhile (\<lambda>c. c \<noteq> CHR ''{'') response_text of
        [] \<Rightarrow> None
      | brace # body \<Rightarrow>
          if CHR ''}'' \<in> set body
          then Some (brace # rev (dropWhile (\<lambda>c. c \<noteq> CHR ''}'') (rev body)))
          else None)"

definition feedstock_keys :: "string list" where
  "feedstock_keys =
     [''S_su'', ''S_aa'', ''S_fa'', ''S_va'', ''S_bu'', ''S_pro'', ''S_ac'', ''S_h2'',
      ''S_ch4'', ''S_IC'', ''S_IN'', ''S_I'',
      ''X_c'', ''X_ch'', ''X_pr'', ''X_li'', ''X_su'', ''X_aa'', ''X_fa'', ''X_c4'',
      ''X_pro'', ''X_ac'', ''X_h2'', ''X_I'',
      ''S_cat'', ''S_an'']"

definition kinetic_keys :: "string list" where
  "kinetic_keys =
     [''q_dis'', ''q_ch_hyd'', ''q_pr_hyd'', ''q_li_hyd'',
      ''k_su'', ''k_aa'', ''k_fa'', ''k_c4'', ''k_pro'', ''k_ac'', ''k_h2'',
      ''b_su'', ''b_aa'', ''b_fa'', ''b_c4'', ''b_pro'', ''b_ac'', ''b_h2'',
      ''K_su'', ''K_aa'', ''K_fa'', ''K_c4'', ''K_pro'', ''K_ac'', ''K_h2'',
      ''KI_h2_fa'', ''KI_h2_c4'', ''KI_h2_pro'', ''KI_nh3'', ''KS_IN'',
      ''Y_su'', ''Y_aa'', ''Y_fa'', ''Y_c4'', ''Y_pro'', ''Y_ac'', ''Y_h2'',
      ''f_bu_su'', ''f_pro_su'', ''f_ac_su'', ''f_va_aa'', ''f_bu_aa'',
      ''f_pro_aa'', ''f_ac_aa'', ''f_ac_fa'', ''f_pro_va'', ''f_ac_va'',
      ''f_ac_bu'', ''f_ac_pro'']"

text \<open>
  Python's \<open>float(x)\<close>.  A float is returned as it is, a bool is the int 1 or 0, an int is
  rounded to the nearest float and raises \<open>OverflowError\<close> when that is out of range, a
  string is parsed by the library (\<open>str_to_float\<close>, a parameter of the model: it returns
  the number or the \<open>ValueError\<close> that \<open>float\<close> raises), and \<open>None\<close>, a list and a dict
  raise \<open>TypeError\<close>.
\<close>

definition float_of_int :: "int \<Rightarrow> error + real" where
  "float_of_int i =
     (if 2 ^ 1024 \<le> \<bar>fl (of_int i)\<bar> then Inl OverflowError else Inr (fl (of_int i)))"

fun py_float :: "(string \<Rightarrow> error + real) \<Rightarrow> pyval \<Rightarrow> error + real" where
  "py_float str_to_float (PFloat r) = Inr r"
| "py_float str_to_float (PBool b) = float_of_int (if b then 1 else 0)"
| "py_float str_to_float (PInt i) = float_of_int i"
| "py_float str_to_float (PStr s) = str_to_float s"
| "py_float str_to_float PNone = Inl TypeError"
| "py_float str_to_float (PList xs) = Inl TypeError"
| "py_float str_to_float (PDict kvs) = Inl TypeError"

text \<open>
  The four dictionaries the function fills: \<open>feedstock_values\<close>,
  \<open>feedstock_explanations\<close>, \<open>kinetic_values\<close>, \<open>kinetic_explanations\<close>.
\<close>

record extraction =
  feedstock_values :: "(string \<times> real) list"
  feedstock_explanations :: "(string \<times> pyval) list"
  kinetic_values :: "(string \<times> real) list"
  kinetic_explanations :: "(string \<times> pyval) list"

definition empty_extraction :: extraction where
  "empty_extraction =
     \<lparr>feedstock_values = [], feedstock_explanations = [],
      kinetic_values = [], kinetic_explanations = []\<rparr>"

text \<open>
  The loop over \<open>data.items()\<close>.  It returns the exception that left the loop, if one
  did, and the four dictionaries as they are at that moment: an exception raised by
  \<open>float(arr[0])\<close> ends the loop, and the entries after it are not visited.
\<close>

fun process_items ::
  "(string \<Rightarrow> error + real) \<Rightarrow> bool \<Rightarrow> (string \<times> pyval) list \<Rightarrow> extraction \<Rightarrow>
   error option \<times> extraction" where
  "process_items str_to_float include_kinetics [] ex = (None, ex)"
| "process_items str_to_float include_kinetics ((key, arr) # rest) ex =
     (case arr of
        PList xs \<Rightarrow>
          if length xs < 3 then process_items str_to_float include_kinetics rest ex
          else
            (case py_float str_to_float (xs ! 0) of
               Inl e \<Rightarrow> (Some e, ex)
             | Inr val \<Rightarrow>
                 let explanation = xs ! 2 in
                 if key \<in> set feedstock_keys
                 then process_items str_to_float include_kinetics rest
                        (ex\<lparr>feedstock_values := dict_set (feedstock_values ex) key val,
                            feedstock_explanations :=
                              dict_set (feedstock_explanations ex) key explanation\<rparr>)
                 else if include_kinetics \<and> key \<in> set kinetic_keys
                 then process_items str_to_float include_kinetics rest
                        (ex\<lparr>kinetic_values := dict_set (kinetic_values ex) key val,
                            kinetic_explanations :=
                              dict_set (kinetic_explanations ex) key explanation\<rparr>)
                 else process_items str_to_float include_kinetics rest ex)
      | _ \<Rightarrow> process_items str_to_float include_kinetics rest ex)"

text \<open>
  The body of the \<open>try\<close> block on the matched substring.  \<open>json_loads\<close> is the library's
  \<open>json.loads\<close>, a parameter of the model: it returns the parsed value or the exception it
  raises.  \<open>data.items()\<close> raises \<open>AttributeError\<close> on a value that is not a dict.
\<close>

definition parse_try ::
  "(string \<Rightarrow> error + pyval) \<Rightarrow> (string \<Rightarrow> error + real) \<Rightarrow> string \<Rightarrow> bool \<Rightarrow>
   error option \<times> extraction" where
  "parse_try json_loads str_to_float matched include_kinetics =
     (case json_loads matched of
        Inl e \<Rightarrow> (Some e, empty_extraction)
      | Inr data \<Rightarrow>
          (case data of
             PDict items \<Rightarrow> process_items str_to_float include_kinetics items empty_extraction
           | _ \<Rightarrow> (Some AttributeError, empty_extraction)))"

text \<open>
  \<open>parse_ai_recommendations\<close> returns the four dictionaries and the exceptions its handler
  reported with \<open>st.error\<close>; \<open>Inl\<close> would be an exception that reaches the caller.
\<close>

definition parse_ai_recommendations ::
  "(string \<Rightarrow> error + pyval) \<Rightarrow> (string \<Rightarrow> error + real) \<Rightarrow> string \<Rightarrow> bool \<Rightarrow>
   error + (extraction \<times> error list)" where
  "parse_ai_recommendations json_loads str_to_float response_text include_kinetics =
     (case json_match response_text of
        None \<Rightarrow> Inr (empty_extraction, [])
      | Some matched \<Rightarrow>
          (case parse_try json_loads str_to_float matched include_kinetics of
             (None, ex) \<Rightarrow> Inr (ex, [])
           | (Some e, ex) \<Rightarrow> Inr (ex, [e])))"

section \<open>main.py\<close>

subsection \<open>The manual feedstock table\<close>

definition feedstock_defaults :: "((string \<times> nat) list \<Rightarrow> real) \<Rightarrow> (string \<times> real) list" where
  "feedstock_defaults get_mw =
     (let C_mw = get_mw [(''C'', 1)];
          N_mw = get_mw [(''N'', 1)]
      in [(''S_su'', fl 0.01),
          (''S_aa'', fl 0.001),
          (''S_fa'', fl 0.001),
          (''S_va'', fl 0.001),
          (''S_bu'', fl 0.001),
          (''S_pro'', fl 0.001),
          (''S_ac'', fl 0.001),
          (''S_h2'', fl 0.00000001),
          (''S_ch4'', fl 0.00001),
          (''S_IC'', fmul (fl 0.04) C_mw),
          (''S_IN'', fmul (fl 0.01) N_mw),
          (''S_I'', fl 0.02),
          (''X_c'', 2),
          (''X_ch'', 5),
          (''X_pr'', 20),
          (''X_li'', 5),
          (''X_su'', fl 0.01),
          (''X_aa'', fl 0.01),
          (''X_fa'', fl 0.01),
          (''X_c4'', fl 0.01),
          (''X_pro'', fl 0.01),
          (''X_ac'', fl 0.01),
          (''X_h2'', fl 0.01),
          (''X_I'', 25),
          (''S_cat'', fl 0.04),
          (''S_an'', fl 0.02)])"

text \<open>The 26 names of the feedstock registry, in the order of the tables.\<close>

definition feedstock_names :: "string list" where
  "feedstock_names =
     [''S_su'', ''S_aa'', ''S_fa'', ''S_va'', ''S_bu'', ''S_pro'', ''S_ac'', ''S_h2'',
      ''S_ch4'', ''S_IC'', ''S_IN'', ''S_I'', ''X_c'', ''X_ch'', ''X_pr'', ''X_li'',
      ''X_su'', ''X_aa'', ''X_fa'', ''X_c4'', ''X_pro'', ''X_ac'', ''X_h2'', ''X_I'',
      ''S_cat'', ''S_an'']"

subsection \<open>Storing the recommendations in the session\<close>

record session_state =
  influent_values :: "(string \<times> real) list"
  influent_explanations :: "(string \<times> pyval) list"
  kinetic_params :: "(string \<times> real) list"
  kinetic_session_explanations :: "(string \<times> pyval) list"
  use_kinetics :: bool
  ai_recommendations :: "string option"

text \<open>
  The handler of the button ``Get AI Recommendations'', from the response of
  \<open>get_ai_recommendations\<close> on (\<open>None\<close> when the call failed).  \<open>main.py\<close> imports
  \<open>parse_ai_recommendations\<close> from the module \<open>ai_helpers\<close>; the function of that name in
  \<open>app.py\<close> is the one modelled above.  The field \<open>kinetic_session_explanations\<close> is
  \<open>st.session_state.kinetic_explanations\<close>.
\<close>

definition main_store_recommendations ::
  "(string \<Rightarrow> error + pyval) \<Rightarrow> (string \<Rightarrow> error + real) \<Rightarrow> string option \<Rightarrow>
   session_state \<Rightarrow> error + session_state" where
  "main_store_recommendations json_loads str_to_float response s =
     (case response of
        None \<Rightarrow> Inr s
      | Some text \<Rightarrow>
          if text = [] then Inr s
          else
            let s1 = s\<lparr>ai_recommendations := Some text\<rparr> in
            (case parse_ai_recommendations json_loads str_to_float text (use_kinetics s1) of
               Inl e \<Rightarrow> Inl e
             | Inr (ex, reported) \<Rightarrow>
                 let fv = feedstock_values ex;
                     fe = feedstock_explanations ex;
                     kv = kinetic_values ex;
                     ke = kinetic_explanations ex;
                     s2 = (if fv \<noteq> []
                           then s1\<lparr>influent_values := dict_update (influent_values s1) fv\<rparr>
                           else s1);
                     s3 = (if fe \<noteq> []
                           then s2\<lparr>influent_explanations :=
                                     dict_update (influent_explanations s2) fe\<rparr>
                           else s2);
                     s4 = (if use_kinetics s3 \<and> kv \<noteq> []
                           then s3\<lparr>kinetic_params := dict_update (kinetic_params s3) kv\<rparr>
                           else s3);
                     s5 = (if use_kinetics s4 \<and> ke \<noteq> []
                           then s4\<lparr>kinetic_session_explanations :=
                                     dict_update (kinetic_session_explanations s4) ke\<rparr>
                           else s4)
                 in Inr s5))"

section \<open>Auxiliary predicates and sample inputs\<close>

text \<open>
  An entry of the parsed object converts when it is not a list of three or more elements
  (the loop passes over it) or \<open>float\<close> accepts its first element.
\<close>

definition entry_converts :: "(string \<Rightarrow> error + real) \<Rightarrow> pyval \<Rightarrow> bool" where
  "entry_converts str_to_float arr =
     (case arr of
        PList xs \<Rightarrow>
          length xs < 3 \<or> (case py_float str_to_float (xs ! 0) of Inl e \<Rightarrow> False | Inr v \<Rightarrow> True)
      | _ \<Rightarrow> True)"

text \<open>
  Four responses of the AI service, and the values of the two library functions on them:
  \<open>sample_json_loads\<close> is \<open>json.loads\<close> on the four objects and on the text \<open>{no json}\<close>, which
  is no JSON; \<open>sample_str_to_float\<close> is \<open>float\<close> on the strings \<open>0.5\<close> and \<open>x\<close>.
\<close>

definition sample_object_bad_entry :: string where
  \<open>sample_object_bad_entry =
     ''{"S_su": [1.0], "S_aa": ["x", "unit", "expl"], "S_fa": [0.5, "kg/m3", "fat"]}''\<close>

definition sample_object_partial :: string where
  \<open>sample_object_partial =
     ''{"S_fa": [0.5, "kg/m3", "fat"], "S_aa": ["x", "unit", "expl"]}''\<close>

definition sample_text_partial :: string where
  "sample_text_partial = ''Here you go: '' @ sample_object_partial"

definition sample_object_gate :: string where
  \<open>sample_object_gate =
     ''{"k_su": ["x", "d^-1", "rate"], "S_fa": [0.5, "kg/m3", "fat"]}''\<close>

definition sample_object_ok :: string where
  \<open>sample_object_ok =
     ''{"k_su": [30, "d^-1", "rate"], "S_fa": [0.5, "kg/m3", "fat"]}''\<close>

definition sample_items_ok :: "(string \<times> pyval) list" where
  "sample_items_ok =
     [(''k_su'', PList [PInt 30, PStr ''d^-1'', PStr ''rate'']),
      (''S_fa'', PList [PFloat (1 / 2), PStr ''kg/m3'', PStr ''fat''])]"

definition sample_json_loads :: "string \<Rightarrow> error + pyval" where
  "sample_json_loads s =
     (if s = sample_object_bad_entry then
        Inr (PDict [(''S_su'', PList [PFloat 1]),
                    (''S_aa'', PList [PStr ''x'', PStr ''unit'', PStr ''expl'']),
                    (''S_fa'', PList [PFloat (1 / 2), PStr ''kg/m3'', PStr ''fat''])])
      else if s = sample_object_partial then
        Inr (PDict [(''S_fa'', PList [PFloat (1 / 2), PStr ''kg/m3'', PStr ''fat'']),
                    (''S_aa'', PList [PStr ''x'', PStr ''unit'', PStr ''expl''])])
      else if s = sample_object_gate then
        Inr (PDict [(''k_su'', PList [PStr ''x'', PStr ''d^-1'', PStr ''rate'']),
                    (''S_fa'', PList [PFloat (1 / 2), PStr ''kg/m3'', PStr ''fat''])])
      else if s = sample_object_ok then Inr (PDict sample_items_ok)
      else Inl JSONDecodeError)"

definition sample_str_to_float :: "string \<Rightarrow> error + real" where
  "sample_str_to_float s = (if s = ''0.5'' then Inr (1 / 2) else Inl ValueError)"

definition sample_session :: session_state where
  "sample_session =
     \<lparr>influent_values = [(''S_su'', 1 / 2)],
      influent_explanations = [(''S_su'', PStr ''measured'')],
      kinetic_params = [(''k_su'', 30)],
      kinetic_session_explanations = [],
      use_kinetics = True,
      ai_recommendations = None\<rparr>"

section \<open>Floating-point rounding\<close>

lemmas float_eval =
  fl_def fadd_def fsub_def fmul_def fdiv_def float_exponent_def pow2_def round_half_even_def
  bit_length.simps Let_def

lemma fl_zero: "fl 0 = 0"
  by (simp add: fl_def)

text \<open>
  The floats nearest to 0.01 and 0.1, and two sums, as Python prints them with
  \<open>as_integer_ratio\<close>.
\<close>

lemma fl_samples:
  "fl 0.01 = 5764607523034235 / 2 ^ 59"
  "fl 0.1 = 3602879701896397 / 2 ^ 55"
  "fadd 20 (fl 0.01) = 5632314283980227 / 2 ^ 48"
  "fadd 150 (fl 0.1) = 5281174250533683 / 2 ^ 45"
  by (simp_all add: float_eval)

text \<open>
  \<open>fl\<close> rounds to nearest: the result is within half a unit in the last place of its
  argument, that is within the relative error \<open>2 ^ - 53\<close>, or within \<open>2 ^ - 1075\<close> where
  the result is subnormal.
\<close>

lemma pow2_powi: "pow2 k = 2 powi k"
  by (simp add: pow2_def power_int_def power_inverse inverse_eq_divide power_one_over)

lemma bit_length_bounds:
  "0 < n \<Longrightarrow> 2 ^ (bit_length n - 1) \<le> n \<and> n < 2 ^ bit_length n"
proof (induction n rule: bit_length.induct)
  case (1 n)
  show ?case
  proof (cases "n div 2 = 0")
    case True
    with "1.prems" have "n = 1" by (simp add: div_eq_0_iff) 
    then show ?thesis by (simp add: bit_length.simps)
  next
    case False
    let ?b = "bit_length (n div 2)"
    from False "1.prems" "1.IH" have IH: "2 ^ (?b - 1) \<le> n div 2" "n div 2 < 2 ^ ?b"
      by simp_all
    have bpos: "0 < ?b" using False by (simp add: bit_length.simps [of "n div 2"])
    have bl: "bit_length n = Suc ?b" using "1.prems" by (simp add: bit_length.simps [of n])
    have "(2::nat) ^ ?b = 2 * 2 ^ (?b - 1)" using bpos by (cases ?b) simp_all
    then have lo: "2 ^ ?b \<le> n" using IH(1) by linarith
    have hi: "n < 2 * 2 ^ ?b" using IH(2) by linarith
    show ?thesis using lo hi by (simp add: bl)
  qed
qed

lemma float_exponent_bounds:
  assumes "x \<noteq> 0"
  shows "2 powi (float_exponent x) \<le> \<bar>x\<bar> \<and> \<bar>x\<bar> < 2 powi (float_exponent x + 1)"
proof (cases "1 \<le> \<bar>x\<bar>")
  case True
  define n where "n = nat \<lfloor>\<bar>x\<bar>\<rfloor>"
  have npos: "0 < n" using True by (simp add: n_def)
  have e: "float_exponent x = int (bit_length n) - 1"
    using True by (simp add: float_exponent_def n_def)
  from bit_length_bounds [OF npos]
  have lo: "2 ^ (bit_length n - 1) \<le> n" and hi: "n < 2 ^ bit_length n" by simp_all
  have bpos: "0 < bit_length n" using npos by (simp add: bit_length.simps [of n])
  have nfl: "real n = of_int \<lfloor>\<bar>x\<bar>\<rfloor>" using True by (simp add: n_def)
  have n_le: "real n \<le> \<bar>x\<bar>" unfolding nfl by linarith
  have x_lt: "\<bar>x\<bar> < real n + 1" unfolding nfl by linarith
  have e': "float_exponent x = int (bit_length n - 1)" using bpos e by simp
  have "2 powi (float_exponent x) = (2::real) ^ (bit_length n - 1)"
    by (simp add: e')
  also have "\<dots> \<le> real n" using lo by (metis of_nat_le_iff of_nat_numeral of_nat_power)
  finally have A: "2 powi (float_exponent x) \<le> \<bar>x\<bar>" using n_le by simp
  have "float_exponent x + 1 = int (bit_length n)" using e by simp
  then have "2 powi (float_exponent x + 1) = (2::real) ^ bit_length n" by simp
  moreover have "real n + 1 \<le> 2 ^ bit_length n"
    using hi by (metis Suc_leI of_nat_Suc of_nat_le_iff of_nat_numeral of_nat_power add.commute)
  ultimately have B: "\<bar>x\<bar> < 2 powi (float_exponent x + 1)" using x_lt by simp
  from A B show ?thesis ..
next
  case False
  define y where "y = 1 / \<bar>x\<bar>"
  have xpos: "0 < \<bar>x\<bar>" using assms by simp
  have y1: "1 < y" using False xpos by (simp add: y_def)
  define m where "m = nat (\<lceil>y\<rceil> - 1)"
  have c2: "2 \<le> \<lceil>y\<rceil>" using y1 by linarith
  have mpos: "0 < m" using c2 by (simp add: m_def)
  have e: "float_exponent x = - int (bit_length m)"
    using False by (simp add: float_exponent_def m_def y_def)
  from bit_length_bounds [OF mpos]
  have lo: "2 ^ (bit_length m - 1) \<le> m" and hi: "m < 2 ^ bit_length m" by simp_all
  have bpos: "0 < bit_length m" using mpos by (simp add: bit_length.simps [of m])
  have mcl: "real m = of_int \<lceil>y\<rceil> - 1" using c2 by (simp add: m_def)
  have m_lt: "real m < y" unfolding mcl by linarith
  have y_le: "y \<le> real m + 1" unfolding mcl by linarith
  have hi': "real m + 1 \<le> 2 ^ bit_length m"
    using hi by (metis Suc_leI of_nat_Suc of_nat_le_iff of_nat_numeral of_nat_power add.commute)
  have lo': "(2::real) ^ (bit_length m - 1) \<le> real m"
    using lo by (metis of_nat_le_iff of_nat_numeral of_nat_power)
  have yle: "y \<le> 2 ^ bit_length m" using y_le hi' by (rule order_trans)
  have ygt: "2 ^ (bit_length m - 1) < y" using lo' m_lt by (rule le_less_trans)
  have x_eq: "\<bar>x\<bar> = 1 / y" using xpos by (simp add: y_def)
  have A: "2 powi (float_exponent x) \<le> \<bar>x\<bar>"
  proof -
    have "2 powi (float_exponent x) = 1 / (2::real) ^ bit_length m"
      by (simp add: e power_int_minus inverse_eq_divide)
    also have "\<dots> \<le> 1 / y" using yle y1 by (simp add: frac_le)
    finally show ?thesis by (simp add: x_eq)
  qed
  have B: "\<bar>x\<bar> < 2 powi (float_exponent x + 1)"
  proof -
    have "float_exponent x + 1 = - int (bit_length m - 1)" using e bpos by simp
    then have "2 powi (float_exponent x + 1) = 1 / (2::real) ^ (bit_length m - 1)"
      by (simp add: power_int_minus inverse_eq_divide)
    moreover have "1 / y < 1 / (2::real) ^ (bit_length m - 1)"
      using ygt by (simp add: frac_less2)
    ultimately show ?thesis by (simp add: x_eq)
  qed
  from A B show ?thesis ..
qed

lemma round_half_even_error: "\<bar>of_int (round_half_even z) - z\<bar> \<le> 1 / 2"
proof -
  define d where "d = z - of_int \<lfloor>z\<rfloor>"
  have d: "0 \<le> d" "d < 1" unfolding d_def by linarith+
  have z: "z = of_int \<lfloor>z\<rfloor> + d" by (simp add: d_def)
  have r: "round_half_even z
             = (if d < 1 / 2 then \<lfloor>z\<rfloor> else if 1 / 2 < d then \<lfloor>z\<rfloor> + 1
                else if even \<lfloor>z\<rfloor> then \<lfloor>z\<rfloor> else \<lfloor>z\<rfloor> + 1)"
    by (simp add: round_half_even_def Let_def d_def)
  have "\<bar>of_int (round_half_even z) - (of_int \<lfloor>z\<rfloor> + d)\<bar> \<le> 1 / 2"
    unfolding r using d by (auto simp: abs_if)
  then show ?thesis using z by simp
qed

lemma fl_error: "\<bar>fl x - x\<bar> \<le> max (\<bar>x\<bar> / 2 ^ 53) (1 / 2 ^ 1075)"
proof (cases "x = 0")
  case True
  then show ?thesis by (simp add: fl_def)
next
  case x0: False
  define e where "e = float_exponent x"
  from float_exponent_bounds [OF x0]
  have lo: "2 powi e \<le> \<bar>x\<bar>" by (simp add: e_def)
  define e' where "e' = max e (- 1022)"
  define u where "u = (2::real) powi (e' - 52)"
  have upos: "0 < u" by (simp add: u_def)
  define r where "r = round_half_even (x / u)"
  have flx: "fl x = of_int r * u"
    using x0 by (simp add: fl_def Let_def pow2_powi u_def r_def e'_def e_def)
  have "\<bar>of_int r * u - x\<bar> = u * \<bar>of_int r - x / u\<bar>"
  proof -
    have "of_int r * u - x = u * (of_int r - x / u)" using upos by (simp add: field_simps)
    then show ?thesis using upos by (simp add: abs_mult)
  qed
  also have "\<dots> \<le> u * (1 / 2)"
    using round_half_even_error [of "x / u"] upos unfolding r_def
    by (intro mult_left_mono) simp_all
  finally have err: "\<bar>fl x - x\<bar> \<le> u / 2" by (simp add: flx)
  have usplit: "u / 2 = 2 powi e' / 2 ^ 53"
  proof -
    have "(2::real) powi (e' - 52) = 2 powi e' / 2 powi 52"
      by (simp add: power_int_diff)
    then show ?thesis by (simp add: u_def)
  qed
  show ?thesis
  proof (cases "- 1022 \<le> e")
    case True
    then have "e' = e" by (simp add: e'_def)
    then have "u / 2 = 2 powi e / 2 ^ 53" using usplit by simp
    also have "\<dots> \<le> \<bar>x\<bar> / 2 ^ 53" using lo by (rule divide_right_mono) simp
    finally have "u / 2 \<le> \<bar>x\<bar> / 2 ^ 53" .
    with err have "\<bar>fl x - x\<bar> \<le> \<bar>x\<bar> / 2 ^ 53" by (rule order_trans)
    then show ?thesis by (rule max.coboundedI1)
  next
    case False
    then have "e' = - 1022" by (simp add: e'_def)
    then have "u / 2 = 2 powi (- 1022) / 2 ^ 53" using usplit by simp
    also have "\<dots> = 1 / (2 ^ 1022 * 2 ^ 53)"
      by (simp only: power_int_minus power_int_numeral inverse_eq_divide divide_divide_eq_left)
    also have "\<dots> = 1 / 2 ^ 1075" by (simp only: flip: power_add) simp
    finally have "u / 2 = 1 / 2 ^ 1075" .
    with err have "\<bar>fl x - x\<bar> \<le> 1 / 2 ^ 1075" by (simp only:)
    then show ?thesis by (rule max.coboundedI2)
  qed
qed

lemma gas_constants_nonzero:
  "DENSITY_CH4 \<noteq> 0" "DENSITY_CO2 \<noteq> 0" "DENSITY_H2 \<noteq> 0" "MW_C \<noteq> 0"
  "COD_CH4 \<noteq> 0" "COD_H2 \<noteq> 0"
  by (simp_all add: DENSITY_CH4_def DENSITY_CO2_def DENSITY_H2_def MW_C_def COD_CH4_def
        COD_H2_def float_eval)

section \<open>The override loop\<close>

lemma override_loop_keys:
  "map fst (fold (\<lambda>(k, v) d. if dict_contains d k then dict_set d k v else d) ovr d0)
     = map fst d0"
proof (induction ovr arbitrary: d0)
  case Nil
  then show ?case by simp
next
  case (Cons p ovr)
  obtain k v where p: "p = (k, v)" by (cases p)
  have "map fst (if dict_contains d0 k then dict_set d0 k v else d0) = map fst d0"
    by (simp add: dict_contains_def dict_set_def update_keys)
  with Cons.IH show ?case by (simp add: p)
qed

lemma override_loop_lookup:
  assumes "distinct (map fst ovr)"
  shows "map_of (fold (\<lambda>(k, v) d. if dict_contains d k then dict_set d k v else d) ovr d0) k
           = (if k \<in> set (map fst d0)
              then (case map_of ovr k of Some v \<Rightarrow> Some v | None \<Rightarrow> map_of d0 k)
              else None)"
  using assms
proof (induction ovr arbitrary: d0)
  case Nil
  then show ?case by (auto simp: map_of_eq_None_iff image_iff)
next
  case (Cons p ovr)
  obtain k' v' where p: "p = (k', v')" by (cases p)
  let ?d1 = "if dict_contains d0 k' then dict_set d0 k' v' else d0"
  have keys: "map fst ?d1 = map fst d0"
    by (simp add: dict_contains_def dict_set_def update_keys)
  have dist: "distinct (map fst ovr)" and fresh: "k' \<notin> set (map fst ovr)"
    using Cons.prems by (simp_all add: p)
  have notin: "map_of ovr k' = None"
    using fresh by (simp add: map_of_eq_None_iff)
  have step: "map_of ?d1 k = (if k = k' \<and> k \<in> set (map fst d0) then Some v' else map_of d0 k)"
    by (auto simp: dict_contains_def dict_set_def update_conv')
  have "map_of (fold (\<lambda>(k, v) d. if dict_contains d k then dict_set d k v else d) ovr ?d1) k
          = (if k \<in> set (map fst ?d1)
             then (case map_of ovr k of Some v \<Rightarrow> Some v | None \<Rightarrow> map_of ?d1 k)
             else None)"
    by (rule Cons.IH [OF dist])
  then show ?case
    unfolding keys step using notin
    by (auto simp: p split: option.splits)
qed

lemma run_simulation_default_conc_names:
  "map fst (run_simulation_default_conc get_mw) = feedstock_names"
  by (simp add: run_simulation_default_conc_def feedstock_names_def Let_def)

lemma create_influent_stream_default_conc_names:
  "map fst (create_influent_stream_default_conc get_mw) = feedstock_names"
  by (simp add: create_influent_stream_default_conc_def feedstock_names_def Let_def)

lemma override_loop_ignores_unknown:
  "fold (\<lambda>(k, v) d. if dict_contains d k then dict_set d k v else d) ovr d0
     = fold (\<lambda>(k, v) d. if dict_contains d k then dict_set d k v else d)
         (filter (\<lambda>(k, v). k \<in> set (map fst d0)) ovr) d0"
proof (induction ovr arbitrary: d0)
  case Nil
  then show ?case by simp
next
  case (Cons p ovr)
  obtain k v where p: "p = (k, v)" by (cases p)
  show ?case
  proof (cases "k \<in> set (map fst d0)")
    case True
    have keys: "map fst (dict_set d0 k v) = map fst d0"
      using True by (simp add: dict_set_def update_keys)
    show ?thesis
      using True Cons.IH [of "dict_set d0 k v"]
      by (simp add: p dict_contains_def keys del: set_map)
  next
    case False
    then show ?thesis
      using Cons.IH [of d0] by (simp add: p dict_contains_def del: set_map)
  qed
qed

section \<open>Resolution of the feedstock concentrations\<close>

text \<open>
  C1 (resolver precedence).  Let \<open>ovr\<close> be an override dictionary (its keys are distinct,
  as the keys of a Python dict are) and \<open>k\<close> one of the 26 feedstock names.  In the
  concentration map that \<open>run_simulation\<close> builds, and in the one that
  \<open>create_influent_stream\<close> builds, \<open>k\<close> has the value \<open>ovr[k]\<close> when \<open>ovr\<close> has the key \<open>k\<close>,
  and the default of \<open>k\<close> otherwise.  The keys of both resolved maps are exactly the 26
  feedstock names, and both maps are the ones obtained from \<open>ovr\<close> with every unknown key
  removed: a key of \<open>ovr\<close> outside the registry is ignored and never appears.
\<close>

theorem resolver_precedence:
  assumes "distinct (map fst ovr)" and "k \<in> set feedstock_names"
  shows "map_of (concentrations (inf (run_simulation get_mw Q Temp HRT ovr kin st ts m uk))) k
           = (case map_of ovr k of
                Some v \<Rightarrow> Some v
              | None \<Rightarrow> map_of (run_simulation_default_conc get_mw) k)
       \<and> map_of (concentrations (create_influent_stream get_mw Q Temp ovr)) k
           = (case map_of ovr k of
                Some v \<Rightarrow> Some v
              | None \<Rightarrow> map_of (create_influent_stream_default_conc get_mw) k)
       \<and> map fst (concentrations (inf (run_simulation get_mw Q Temp HRT ovr kin st ts m uk)))
           = feedstock_names
       \<and> map fst (concentrations (create_influent_stream get_mw Q Temp ovr)) = feedstock_names
       \<and> concentrations (inf (run_simulation get_mw Q Temp HRT ovr kin st ts m uk))
           = concentrations (inf (run_simulation get_mw Q Temp HRT
               (filter (\<lambda>(k, v). k \<in> set feedstock_names) ovr) kin st ts m uk))
       \<and> concentrations (create_influent_stream get_mw Q Temp ovr)
           = concentrations (create_influent_stream get_mw Q Temp
               (filter (\<lambda>(k, v). k \<in> set feedstock_names) ovr))"
proof -
  let ?run = "run_simulation_default_conc get_mw"
  let ?cre = "create_influent_stream_default_conc get_mw"
  have krun: "k \<in> set (map fst ?run)"
    using assms(2) by (simp only: run_simulation_default_conc_names)
  have kcre: "k \<in> set (map fst ?cre)"
    using assms(2) by (simp only: create_influent_stream_default_conc_names)
  have a: "map_of (concentrations (inf (run_simulation get_mw Q Temp HRT ovr kin st ts m uk))) k
             = (case map_of ovr k of Some v \<Rightarrow> Some v | None \<Rightarrow> map_of ?run k)"
    using override_loop_lookup [OF assms(1), of ?run k] krun
    by (simp add: run_simulation_def Let_def del: set_map)
  have b: "map_of (concentrations (create_influent_stream get_mw Q Temp ovr)) k
             = (case map_of ovr k of Some v \<Rightarrow> Some v | None \<Rightarrow> map_of ?cre k)"
    using override_loop_lookup [OF assms(1), of ?cre k] kcre
    by (simp add: create_influent_stream_def Let_def del: set_map)
  have c: "map fst (concentrations (inf (run_simulation get_mw Q Temp HRT ovr kin st ts m uk)))
             = feedstock_names"
    using override_loop_keys [of ovr ?run]
    by (simp add: run_simulation_def Let_def run_simulation_default_conc_names)
  have d: "map fst (concentrations (create_influent_stream get_mw Q Temp ovr)) = feedstock_names"
    using override_loop_keys [of ovr ?cre]
    by (simp add: create_influent_stream_def Let_def create_influent_stream_default_conc_names)
  have e: "concentrations (inf (run_simulation get_mw Q Temp HRT ovr kin st ts m uk))
             = concentrations (inf (run_simulation get_mw Q Temp HRT
                 (filter (\<lambda>(k, v). k \<in> set feedstock_names) ovr) kin st ts m uk))"
    using override_loop_ignores_unknown [of ovr ?run]
    by (simp add: run_simulation_def Let_def run_simulation_default_conc_names del: set_map)
  have f: "concentrations (create_influent_stream get_mw Q Temp ovr)
             = concentrations (create_influent_stream get_mw Q Temp
                 (filter (\<lambda>(k, v). k \<in> set feedstock_names) ovr))"
    using override_loop_ignores_unknown [of ovr ?cre]
    by (simp add: create_influent_stream_def Let_def create_influent_stream_default_conc_names
          del: set_map)
  from a b c d e f show ?thesis by blast
qed

text \<open>
  The override \<open>S_su = 0.05\<close> with a key \<open>bogus\<close> that the registry does not have:
  \<open>S_su\<close> resolves to 0.05 and the keys stay the 26 names.
\<close>

theorem resolver_precedence_witness:
  "distinct (map fst [(''S_su'', fl 0.05), (''bogus'', 1)])
   \<and> ''S_su'' \<in> set feedstock_names
   \<and> map_of (concentrations (inf (run_simulation (\<lambda>_. 12) 170 308 30
        [(''S_su'', fl 0.05), (''bogus'', 1)] [] 150 (fl 0.1) ''BDF'' False))) ''S_su''
       = Some (fl 0.05)
   \<and> map_of (concentrations (create_influent_stream (\<lambda>_. 12) 170 308
        [(''S_su'', fl 0.05), (''bogus'', 1)])) ''S_su'' = Some (fl 0.05)
   \<and> map fst (concentrations (create_influent_stream (\<lambda>_. 12) 170 308
        [(''S_su'', fl 0.05), (''bogus'', 1)])) = feedstock_names"
proof -
  have h1: "distinct (map fst [(''S_su'', fl 0.05), (''bogus'', 1::real)])" by simp
  have h2: "''S_su'' \<in> set feedstock_names" by (simp add: feedstock_names_def)
  note th = resolver_precedence [OF h1 h2, of "\<lambda>_. 12" 170 308 30 "[]" 150 "fl 0.1" "''BDF''" False]
  have a: "map_of (concentrations (inf (run_simulation (\<lambda>_. 12) 170 308 30
        [(''S_su'', fl 0.05), (''bogus'', 1)] [] 150 (fl 0.1) ''BDF'' False))) ''S_su''
       = Some (fl 0.05)"
    using th [THEN conjunct1] by simp
  have b: "map_of (concentrations (create_influent_stream (\<lambda>_. 12) 170 308
        [(''S_su'', fl 0.05), (''bogus'', 1)])) ''S_su'' = Some (fl 0.05)"
    using th [THEN conjunct2, THEN conjunct1] by simp
  have d: "map fst (concentrations (create_influent_stream (\<lambda>_. 12) 170 308
        [(''S_su'', fl 0.05), (''bogus'', 1)])) = feedstock_names"
    using th [THEN conjunct2, THEN conjunct2, THEN conjunct2, THEN conjunct1] .
  from h1 h2 a b d show ?thesis by (intro conjI)
qed

section \<open>Reactor sizing\<close>

text \<open>
  C6 (reactor sizing), as the code has it.  For every flow \<open>Q\<close> and retention time \<open>HRT\<close>,
  \<open>run_simulation\<close> constructs the reactor with the liquid volume \<open>Q * HRT\<close> and with the
  gas volume \<open>(Q * HRT) * 0.1\<close>, both products taken in floating point and in this order:
  the liquid volume is the real product \<open>Q * HRT\<close> rounded to a float, the gas volume is
  the real product of the liquid volume and the float 0.1 rounded to a float, and each is
  within the rounding error of that real product.
\<close>

theorem reactor_sizing:
  "V_liq (run_simulation get_mw Q Temp HRT ovr kin st ts m uk) = fl (Q * HRT)
   \<and> V_gas (run_simulation get_mw Q Temp HRT ovr kin st ts m uk)
       = fl (V_liq (run_simulation get_mw Q Temp HRT ovr kin st ts m uk) * fl 0.1)
   \<and> fl 0.1 = 3602879701896397 / 2 ^ 55
   \<and> \<bar>V_liq (run_simulation get_mw Q Temp HRT ovr kin st ts m uk) - Q * HRT\<bar>
       \<le> max (\<bar>Q * HRT\<bar> / 2 ^ 53) (1 / 2 ^ 1075)
   \<and> \<bar>V_gas (run_simulation get_mw Q Temp HRT ovr kin st ts m uk)
        - V_liq (run_simulation get_mw Q Temp HRT ovr kin st ts m uk)
            * (3602879701896397 / 2 ^ 55)\<bar>
       \<le> max (\<bar>V_liq (run_simulation get_mw Q Temp HRT ovr kin st ts m uk)
                  * (3602879701896397 / 2 ^ 55)\<bar> / 2 ^ 53) (1 / 2 ^ 1075)"
proof -
  let ?r = "run_simulation get_mw Q Temp HRT ovr kin st ts m uk"
  have liq: "V_liq ?r = fl (Q * HRT)"
    by (simp add: run_simulation_def Let_def fmul_def)
  have gas: "V_gas ?r = fl (V_liq ?r * fl 0.1)"
    by (simp add: run_simulation_def Let_def fmul_def)
  have tenth: "fl 0.1 = 3602879701896397 / 2 ^ 55"
    by (rule fl_samples(2))
  have b1: "\<bar>V_liq ?r - Q * HRT\<bar> \<le> max (\<bar>Q * HRT\<bar> / 2 ^ 53) (1 / 2 ^ 1075)"
    unfolding liq by (rule fl_error)
  have b2: "\<bar>V_gas ?r - V_liq ?r * (3602879701896397 / 2 ^ 55)\<bar>
              \<le> max (\<bar>V_liq ?r * (3602879701896397 / 2 ^ 55)\<bar> / 2 ^ 53) (1 / 2 ^ 1075)"
    using fl_error [of "V_liq ?r * (3602879701896397 / 2 ^ 55)"] gas tenth by simp
  from liq gas tenth b1 b2 show ?thesis by (intro conjI)
qed

text \<open>At the defaults, 170 m3/d and 30 d, the volumes are 5100 and 510.\<close>

lemma reactor_sizing_default:
  "V_liq (run_simulation get_mw 170 Temp 30 ovr kin st ts m uk) = 5100
   \<and> V_gas (run_simulation get_mw 170 Temp 30 ovr kin st ts m uk) = 510"
  by (simp add: run_simulation_def float_eval)

text \<open>
  C6 as stated fails: at \<open>Q = 3\<close> and \<open>HRT = 3\<close> the gas volume passed is the float 0.9,
  while \<open>0.1 * Q * HRT\<close>, evaluated from left to right in floating point, is the next
  float above it; and the real number \<open>0.1 * 3 * 3\<close> is no float.
\<close>

theorem reactor_sizing_order_counterexample:
  "V_gas (run_simulation (\<lambda>_. 12) 3 308 3 [] [] 150 (fl 0.1) ''BDF'' False)
     = 8106479329266893 / 2 ^ 53
   \<and> fl (fl (fl 0.1 * 3) * 3) = 4053239664633447 / 2 ^ 52
   \<and> V_gas (run_simulation (\<lambda>_. 12) 3 308 3 [] [] 150 (fl 0.1) ''BDF'' False)
       \<noteq> fl (fl (fl 0.1 * 3) * 3)
   \<and> V_gas (run_simulation (\<lambda>_. 12) 3 308 3 [] [] 150 (fl 0.1) ''BDF'' False) \<noteq> 0.1 * 3 * 3"
proof -
  have a: "V_gas (run_simulation (\<lambda>_. 12) 3 308 3 [] [] 150 (fl 0.1) ''BDF'' False)
             = 8106479329266893 / 2 ^ 53"
    by (simp add: run_simulation_def float_eval)
  have b: "fl (fl (fl 0.1 * 3) * 3) = 4053239664633447 / 2 ^ 52"
    by (simp add: float_eval)
  have c: "(8106479329266893 / 2 ^ 53 :: real) \<noteq> 4053239664633447 / 2 ^ 52" by simp
  have d: "(8106479329266893 / 2 ^ 53 :: real) \<noteq> 0.1 * 3 * 3" by simp
  from a b c d show ?thesis by simp
qed

section \<open>Displayed and simulated influent\<close>

text \<open>
  C10 (display/simulation influent agreement).  For every flow, temperatures and override
  map, \<open>create_influent_stream\<close> and \<open>run_simulation\<close> build the same resolved concentration
  map, at the same flow and in the same units; and the table of defaults of the manual
  input in \<open>main\<close> is equal to the table of defaults of each of the two functions.
\<close>

theorem influent_agreement:
  "concentrations (create_influent_stream get_mw Q T1 ovr)
     = concentrations (inf (run_simulation get_mw Q T2 HRT ovr kin st ts m uk))
   \<and> flow_Q (create_influent_stream get_mw Q T1 ovr)
     = flow_Q (inf (run_simulation get_mw Q T2 HRT ovr kin st ts m uk))
   \<and> units (create_influent_stream get_mw Q T1 ovr)
     = units (inf (run_simulation get_mw Q T2 HRT ovr kin st ts m uk))
   \<and> feedstock_defaults get_mw = run_simulation_default_conc get_mw
   \<and> feedstock_defaults get_mw = create_influent_stream_default_conc get_mw
   \<and> map fst (feedstock_defaults get_mw) = feedstock_names"
  by (simp add: create_influent_stream_def run_simulation_def Let_def feedstock_defaults_def
        run_simulation_default_conc_def create_influent_stream_default_conc_def
        feedstock_names_def)

section \<open>The sampling grid\<close>

lemma np_arange_shape:
  assumes "fdiv (fsub stop start) step = Inr q" and "3 \<le> nat \<lceil>q\<rceil>"
  shows "\<exists>grid. np_arange start stop step = Inr grid
           \<and> length grid = nat \<lceil>q\<rceil>
           \<and> last grid
               = fadd start (fmul (real (nat \<lceil>q\<rceil> - 1)) (fsub (fadd start step) start))"
proof -
  define n where "n = nat \<lceil>q\<rceil>"
  define g where "g = (\<lambda>i. fadd start (fmul (real i) (fsub (fadd start step) start)))"
  let ?xs = "start # fadd start step # map g [2..<n]"
  have n3: "3 \<le> n" using assms(2) by (simp add: n_def)
  have grid: "np_arange start stop step = Inr (take n ?xs)"
    using assms(1) by (simp add: np_arange_def Let_def n_def g_def)
  have len: "length ?xs = n" using n3 by simp
  then have all: "take n ?xs = ?xs" by simp
  have ne: "[2..<n] \<noteq> []" using n3 by simp
  have "last ?xs = last (map g [2..<n])" using ne by simp
  also have "\<dots> = g (last [2..<n])" using ne by (simp add: last_map)
  also have "last [2..<n] = n - 1" using n3 by (simp add: last_upt)
  finally have "last ?xs = g (n - 1)" .
  with grid len all show ?thesis
    unfolding n_def g_def by (metis (no_types, lifting))
qed

lemma grid_quotient_failing:
  "fdiv (fsub (fadd 20 (fl 0.01)) 0) (fl 0.01) = Inr (8800491068719105 / 4398046511104)"
  by (simp add: float_eval)

lemma grid_quotient_default:
  "fdiv (fsub (fadd 150 (fl 0.1)) 0) (fl 0.1) = Inr (6601467813167103 / 4398046511104)"
  by (simp add: float_eval)

text \<open>
  C8 (sampling grid).  The grid is \<open>numpy.arange(0, simulation_time + t_step, t_step)\<close> in
  floating point.  At the horizon 20 d and the step 0.01 d, both reachable with the
  sliders of the sidebar, the step divides the horizon 2000 times, but the quotient
  \<open>(20 + 0.01) / 0.01\<close> rounds to a float above 2001 and the grid has 2002 points, the
  last one beyond the horizon; the claim asks for 2001 points ending at 20.
\<close>

theorem sampling_grid_extra_point:
  "\<exists>args. simulate_call (run_simulation get_mw Q Temp HRT ovr kin 20 (fl 0.01) m uk) = Inr args
     \<and> t_span args = (0, 20)
     \<and> length (t_eval args) = 2002
     \<and> last (t_eval args) = 5632314283980227 / 281474976710656
     \<and> 20 < last (t_eval args)"
proof -
  have n: "nat \<lceil>8800491068719105 / 4398046511104 :: real\<rceil> = 2002" by simp
  from np_arange_shape [OF grid_quotient_failing] n
  obtain grid where g: "np_arange 0 (fadd 20 (fl 0.01)) (fl 0.01) = Inr grid"
    and len: "length grid = 2002"
    and lst: "last grid = fadd 0 (fmul (real (2002 - 1)) (fsub (fadd 0 (fl 0.01)) 0))"
    by auto
  have "fadd 0 (fmul (real (2002 - 1)) (fsub (fadd 0 (fl 0.01)) 0))
          = 5632314283980227 / 281474976710656"
    by (simp add: float_eval)
  with lst have lst': "last grid = 5632314283980227 / 281474976710656" by simp
  have "simulate_call (run_simulation get_mw Q Temp HRT ovr kin 20 (fl 0.01) m uk)
          = Inr \<lparr>t_span = (0, 20), t_eval = grid, solver_method = m\<rparr>"
    using g by (simp add: run_simulation_def Let_def)
  with len lst' show ?thesis by simp
qed

text \<open>At the defaults, 150 d and 0.1 d, the grid has 1501 points and ends at 150.\<close>

lemma sampling_grid_default:
  "\<exists>args. simulate_call (run_simulation get_mw Q Temp HRT ovr kin 150 (fl 0.1) m uk) = Inr args
     \<and> t_span args = (0, 150)
     \<and> length (t_eval args) = 1501
     \<and> last (t_eval args) = 150"
proof -
  have n: "nat \<lceil>6601467813167103 / 4398046511104 :: real\<rceil> = 1501" by simp
  from np_arange_shape [OF grid_quotient_default] n
  obtain grid where g: "np_arange 0 (fadd 150 (fl 0.1)) (fl 0.1) = Inr grid"
    and len: "length grid = 1501"
    and lst: "last grid = fadd 0 (fmul (real (1501 - 1)) (fsub (fadd 0 (fl 0.1)) 0))"
    by auto
  have "fadd 0 (fmul (real (1501 - 1)) (fsub (fadd 0 (fl 0.1)) 0)) = 150"
    by (simp add: float_eval)
  with lst have lst': "last grid = 150" by simp
  have "simulate_call (run_simulation get_mw Q Temp HRT ovr kin 150 (fl 0.1) m uk)
          = Inr \<lparr>t_span = (0, 150), t_eval = grid, solver_method = m\<rparr>"
    using g by (simp add: run_simulation_def Let_def)
  with len lst' show ?thesis by simp
qed

section \<open>Gas fractions\<close>

lemma gas_try_no_zero_division: "gas_try stream \<noteq> Inl ZeroDivisionError"
  by (auto simp: gas_try_def gas_flows_def gas_fraction_def bind_err_def fdiv_def imass_get_def
        gas_constants_nonzero Let_def
      split: option.splits sum.splits if_splits prod.splits)

text \<open>
  C7 (gas-fraction degeneracy).  When the volumetric flows of methane, carbon dioxide and
  hydrogen that \<open>display_gas_stream\<close> computes are all zero, or more generally when their
  total is not positive, the methane percentage, the carbon dioxide percentage and the
  hydrogen ppmv it reports are 0, no exception is raised, and in particular no division by
  zero is performed.
\<close>

theorem gas_fraction_degeneracy:
  assumes "gas_flows stream = Inr (methane_flow, co2_flow, h2_flow)"
    and "(methane_flow = 0 \<and> co2_flow = 0 \<and> h2_flow = 0)
         \<or> \<not> 0 < fadd (fadd methane_flow co2_flow) h2_flow"
  shows "methane_pct (display_gas_stream stream) = 0
         \<and> co2_pct (display_gas_stream stream) = 0
         \<and> h2_ppmv (display_gas_stream stream) = 0
         \<and> flow_vol_total (display_gas_stream stream)
             = fadd (fadd methane_flow co2_flow) h2_flow
         \<and> gas_error (display_gas_stream stream) = None
         \<and> gas_try stream \<noteq> Inl ZeroDivisionError"
proof -
  have "\<not> 0 < fadd (fadd methane_flow co2_flow) h2_flow"
    using assms(2) by (auto simp: fadd_def fl_zero)
  then have "gas_try stream
               = Inr (fadd (fadd methane_flow co2_flow) h2_flow, 0, 0, 0)"
    using assms(1) by (simp add: gas_try_def gas_fraction_def bind_err_def)
  then show ?thesis
    by (simp add: display_gas_stream_def)
qed

text \<open>A stream whose three mass flows are zero.\<close>

theorem gas_fraction_degeneracy_witness:
  "gas_flows \<lparr>imass = Some [(''S_ch4'', 0), (''S_IC'', 0), (''S_h2'', 0)]\<rparr> = Inr (0, 0, 0)
   \<and> display_gas_stream \<lparr>imass = Some [(''S_ch4'', 0), (''S_IC'', 0), (''S_h2'', 0)]\<rparr>
       = \<lparr>flow_vol_total = 0, methane_pct = 0, co2_pct = 0, h2_ppmv = 0, gas_error = None\<rparr>"
proof -
  let ?s = "\<lparr>imass = Some [(''S_ch4'', 0), (''S_IC'', 0), (''S_h2'', 0)]\<rparr>"
  have h1: "gas_flows ?s = Inr (0, 0, 0)"
    by (simp add: gas_flows_def imass_get_def bind_err_def fdiv_def fmul_def fl_zero
          gas_constants_nonzero)
  have h2: "((0::real) = 0 \<and> (0::real) = 0 \<and> (0::real) = 0) \<or> \<not> 0 < fadd (fadd 0 0) 0"
    by simp
  from gas_fraction_degeneracy [OF h1 h2]
  have "display_gas_stream ?s
          = \<lparr>flow_vol_total = 0, methane_pct = 0, co2_pct = 0, h2_ppmv = 0, gas_error = None\<rparr>"
    by (cases "display_gas_stream ?s") (simp add: fadd_def fl_zero)
  with h1 show ?thesis by simp
qed

section \<open>Extraction of the AI recommendations\<close>

lemma process_items_gate:
  "kinetic_values (snd (process_items f False items ex)) = kinetic_values ex
   \<and> kinetic_explanations (snd (process_items f False items ex)) = kinetic_explanations ex"
  by (induction f False items ex rule: process_items.induct)
     (auto split: pyval.splits sum.splits simp: Let_def)

lemma process_items_no_error:
  "list_all (\<lambda>(k, arr). entry_converts f arr) items \<Longrightarrow> fst (process_items f ik items ex) = None"
  by (induction f ik items ex rule: process_items.induct)
     (auto split: pyval.splits sum.splits simp: Let_def entry_converts_def)

lemma process_items_preserves:
  "key \<notin> fst ` set items \<Longrightarrow>
   map_of (feedstock_values (snd (process_items f ik items ex))) key
     = map_of (feedstock_values ex) key
   \<and> map_of (feedstock_explanations (snd (process_items f ik items ex))) key
     = map_of (feedstock_explanations ex) key"
  by (induction f ik items ex rule: process_items.induct)
     (auto split: pyval.splits sum.splits simp: Let_def dict_set_def update_conv')

lemma process_items_records:
  assumes "list_all (\<lambda>(k, arr). entry_converts f arr) items"
    and "distinct (map fst items)"
    and "(key, PList xs) \<in> set items"
    and "3 \<le> length xs"
    and "key \<in> set feedstock_keys"
    and "py_float f (xs ! 0) = Inr val"
  shows "map_of (feedstock_values (snd (process_items f ik items ex))) key = Some val
         \<and> map_of (feedstock_explanations (snd (process_items f ik items ex))) key
             = Some (xs ! 2)"
  using assms
proof (induction items arbitrary: ex)
  case Nil
  then show ?case by simp
next
  case (Cons p items)
  obtain k arr where p: "p = (k, arr)" by (cases p)
  show ?case
  proof (cases "k = key")
    case True
    have arr: "arr = PList xs"
      using Cons.prems(2,3) True p by (auto simp: image_iff)
    have fresh: "key \<notin> fst ` set items"
      using Cons.prems(2) True p by simp
    let ?ex = "ex\<lparr>feedstock_values := dict_set (feedstock_values ex) key val,
                   feedstock_explanations := dict_set (feedstock_explanations ex) key (xs ! 2)\<rparr>"
    have "process_items f ik (p # items) ex = process_items f ik items ?ex"
      using Cons.prems(4,5,6) by (simp add: p True arr Let_def)
    then show ?thesis
      using process_items_preserves [OF fresh, of f ik ?ex]
      by (simp add: dict_set_def update_conv')
  next
    case False
    have mem: "(key, PList xs) \<in> set items"
      using Cons.prems(3) False p by auto
    have rest: "list_all (\<lambda>(k, arr). entry_converts f arr) items" "distinct (map fst items)"
      using Cons.prems(1,2) by simp_all
    have conv: "entry_converts f arr"
      using Cons.prems(1) p by simp
    note IH = Cons.IH [OF rest mem Cons.prems(4,5,6)]
    show ?thesis
      using conv IH
      by (auto simp: p entry_converts_def Let_def split: pyval.splits sum.splits)
  qed
qed

text \<open>
  An entry whose first element \<open>float\<close> rejects ends the loop: the dictionaries are those
  recorded from the entries before it, whatever entries follow.
\<close>

lemma process_items_stops_at_error:
  assumes "fst (process_items f ik before ex) = None"
    and "3 \<le> length xs"
    and "py_float f (xs ! 0) = Inl e"
  shows "process_items f ik (before @ (key, PList xs) # rest) ex
           = (Some e, snd (process_items f ik before ex))"
  using assms(1)
proof (induction before arbitrary: ex)
  case Nil
  then show ?case using assms(2,3) by simp
next
  case (Cons p before)
  obtain k arr where p: "p = (k, arr)" by (cases p)
  show ?case
    using Cons.prems Cons.IH
    by (cases arr) (auto simp: p Let_def split: sum.splits if_splits)
qed

lemma parse_failure_empty:
  assumes "json_match text = None \<or> (\<exists>matched e. json_match text = Some matched \<and> json_loads matched = Inl e)"
  shows "\<exists>reported. parse_ai_recommendations json_loads f text ik = Inr (empty_extraction, reported)"
  using assms by (auto simp: parse_ai_recommendations_def parse_try_def)

lemmas sample_eval =
  parse_ai_recommendations_def json_match_def parse_try_def sample_json_loads_def
  sample_str_to_float_def sample_object_bad_entry_def sample_object_partial_def
  sample_text_partial_def sample_object_gate_def sample_object_ok_def sample_items_ok_def
  feedstock_keys_def kinetic_keys_def dict_set_def empty_extraction_def

text \<open>
  C3 (extractor totality).  For every response text and every value of
  \<open>include_kinetics\<close>, whatever \<open>json.loads\<close> and \<open>float\<close> do, \<open>parse_ai_recommendations\<close>
  raises nothing to its caller and returns its four dictionaries.
\<close>

theorem extractor_totality:
  "\<exists>ex reported.
     parse_ai_recommendations json_loads str_to_float response_text include_kinetics
       = Inr (ex, reported)"
  by (auto simp: parse_ai_recommendations_def split: option.splits prod.splits)

text \<open>
  C2 (extractor entry robustness).  The object has an entry that is too short, an entry
  whose first element \<open>float\<close> rejects, and then a well-formed entry \<open>S_fa\<close>.  The short
  entry is passed over, but the \<open>ValueError\<close> of the second entry leaves the loop: it is
  reported with \<open>st.error\<close>, and \<open>S_fa\<close> is not extracted.
\<close>

theorem extractor_bad_entry_aborts:
  "sample_json_loads sample_object_bad_entry
     = Inr (PDict [(''S_su'', PList [PFloat 1]),
                   (''S_aa'', PList [PStr ''x'', PStr ''unit'', PStr ''expl'']),
                   (''S_fa'', PList [PFloat (1 / 2), PStr ''kg/m3'', PStr ''fat''])])
   \<and> parse_ai_recommendations sample_json_loads sample_str_to_float sample_object_bad_entry True
     = Inr (\<lparr>feedstock_values = [], feedstock_explanations = [],
             kinetic_values = [], kinetic_explanations = []\<rparr>, [ValueError])"
  by (simp add: sample_eval)

text \<open>
  C4 (extractor atomicity on failure), as the code has it.  When the response has no
  substring in braces, or \<open>json.loads\<close> raises on that substring, the four dictionaries
  returned are empty.
\<close>

theorem extractor_empty_on_failure:
  assumes "json_match response_text = None
           \<or> (\<exists>matched e. json_match response_text = Some matched \<and> json_loads matched = Inl e)"
  shows "\<exists>reported.
           parse_ai_recommendations json_loads str_to_float response_text include_kinetics
             = Inr (empty_extraction, reported)"
  using assms by (rule parse_failure_empty)

text \<open>The text \<open>{no json}\<close> is matched, and is no JSON.\<close>

theorem extractor_empty_on_failure_witness:
  "(json_match ''{no json}'' = None
    \<or> (\<exists>matched e. json_match ''{no json}'' = Some matched \<and> sample_json_loads matched = Inl e))
   \<and> parse_ai_recommendations sample_json_loads sample_str_to_float ''{no json}'' True
       = Inr (empty_extraction, [JSONDecodeError])"
proof -
  have m: "json_match ''{no json}'' = Some ''{no json}''"
    by (simp add: json_match_def)
  have l: "sample_json_loads ''{no json}'' = Inl JSONDecodeError"
    by (simp add: sample_eval)
  have h: "json_match ''{no json}'' = None
    \<or> (\<exists>matched e. json_match ''{no json}'' = Some matched \<and> sample_json_loads matched = Inl e)"
    using m l by blast
  from extractor_empty_on_failure [OF h, of sample_str_to_float True]
  obtain reported where r: "parse_ai_recommendations sample_json_loads sample_str_to_float
      ''{no json}'' True = Inr (empty_extraction, reported)" by blast
  have "reported = [JSONDecodeError]"
    using r m l by (simp add: parse_ai_recommendations_def parse_try_def)
  with r h show ?thesis by simp
qed

text \<open>
  C4 as stated fails: here \<open>float\<close> raises on the second entry, the extraction fails, and
  the dictionaries returned hold the first entry.
\<close>

theorem extractor_partial_counterexample:
  "parse_ai_recommendations sample_json_loads sample_str_to_float sample_text_partial True
     = Inr (\<lparr>feedstock_values = [(''S_fa'', 1 / 2)],
             feedstock_explanations = [(''S_fa'', PStr ''fat'')],
             kinetic_values = [], kinetic_explanations = []\<rparr>, [ValueError])
   \<and> fst (projr (parse_ai_recommendations sample_json_loads sample_str_to_float
                   sample_text_partial True)) \<noteq> empty_extraction"
  by (simp add: sample_eval)

text \<open>
  With \<open>include_kinetics\<close> false the two kinetic dictionaries returned are empty, for every
  response whose matched substring parses to an object; and when \<open>float\<close> accepts the first
  element of every entry that is a list of three or more elements, nothing is reported
  and every such entry with a feedstock key is recorded.
\<close>

lemma kinetics_gate_and_feedstock_recording:
  assumes "json_match response_text = Some matched"
    and "json_loads matched = Inr (PDict items)"
    and "distinct (map fst items)"
  shows "\<exists>ex reported.
           parse_ai_recommendations json_loads str_to_float response_text False = Inr (ex, reported)
           \<and> kinetic_values ex = [] \<and> kinetic_explanations ex = []
           \<and> (list_all (\<lambda>(k, arr). entry_converts str_to_float arr) items \<longrightarrow>
                reported = []
                \<and> (\<forall>key xs val.
                      (key, PList xs) \<in> set items \<and> 3 \<le> length xs
                      \<and> key \<in> set feedstock_keys
                      \<and> py_float str_to_float (xs ! 0) = Inr val \<longrightarrow>
                      map_of (feedstock_values ex) key = Some val
                      \<and> map_of (feedstock_explanations ex) key = Some (xs ! 2)))"
proof -
  let ?r = "process_items str_to_float False items empty_extraction"
  obtain err ex where r: "?r = (err, ex)" by (cases ?r)
  have parse: "parse_ai_recommendations json_loads str_to_float response_text False
                 = Inr (ex, case err of None \<Rightarrow> [] | Some e \<Rightarrow> [e])"
    using assms(1,2) r
    by (simp add: parse_ai_recommendations_def parse_try_def split: option.splits)
  have gate: "kinetic_values ex = [] \<and> kinetic_explanations ex = []"
    using process_items_gate [of str_to_float items empty_extraction] r
    by (simp add: empty_extraction_def)
  have rec: "reported = [] \<and> (\<forall>key xs val.
                (key, PList xs) \<in> set items \<and> 3 \<le> length xs
                \<and> key \<in> set feedstock_keys
                \<and> py_float str_to_float (xs ! 0) = Inr val \<longrightarrow>
                map_of (feedstock_values ex) key = Some val
                \<and> map_of (feedstock_explanations ex) key = Some (xs ! 2))"
    if conv: "list_all (\<lambda>(k, arr). entry_converts str_to_float arr) items"
      and rep: "reported = (case err of None \<Rightarrow> [] | Some e \<Rightarrow> [e])" for reported
  proof -
    have "err = None"
      using process_items_no_error [OF conv, of False empty_extraction] r by simp
    then have "reported = []" using rep by simp
    moreover have "map_of (feedstock_values ex) key = Some val
                \<and> map_of (feedstock_explanations ex) key = Some (xs ! 2)"
      if "(key, PList xs) \<in> set items" "3 \<le> length xs" "key \<in> set feedstock_keys"
        "py_float str_to_float (xs ! 0) = Inr val" for key xs val
      using process_items_records [OF conv assms(3) that, of False empty_extraction] r by simp
    ultimately show ?thesis by blast
  qed
  show ?thesis
    using parse gate rec by blast
qed

text \<open>An object with a kinetic entry and a feedstock entry, both well formed.\<close>

lemma kinetics_gate_and_feedstock_recording_example:
  "json_match sample_object_ok = Some sample_object_ok
   \<and> sample_json_loads sample_object_ok = Inr (PDict sample_items_ok)
   \<and> distinct (map fst sample_items_ok)
   \<and> list_all (\<lambda>(k, arr). entry_converts sample_str_to_float arr) sample_items_ok
   \<and> (''S_fa'', PList [PFloat (1 / 2), PStr ''kg/m3'', PStr ''fat'']) \<in> set sample_items_ok
   \<and> ''S_fa'' \<in> set feedstock_keys
   \<and> (\<exists>ex reported.
         parse_ai_recommendations sample_json_loads sample_str_to_float sample_object_ok False
           = Inr (ex, reported)
         \<and> kinetic_values ex = [] \<and> kinetic_explanations ex = [] \<and> reported = []
         \<and> map_of (feedstock_values ex) ''S_fa'' = Some (1 / 2)
         \<and> map_of (feedstock_explanations ex) ''S_fa'' = Some (PStr ''fat''))"
proof -
  have h1: "json_match sample_object_ok = Some sample_object_ok"
    by (simp add: json_match_def sample_object_ok_def)
  have h2: "sample_json_loads sample_object_ok = Inr (PDict sample_items_ok)"
    by (simp add: sample_eval)
  have h3: "distinct (map fst sample_items_ok)"
    by (simp add: sample_items_ok_def)
  have h4: "list_all (\<lambda>(k, arr). entry_converts sample_str_to_float arr) sample_items_ok"
    by (simp add: sample_items_ok_def entry_converts_def float_of_int_def float_eval)
  have h5: "(''S_fa'', PList [PFloat (1 / 2), PStr ''kg/m3'', PStr ''fat'']) \<in> set sample_items_ok"
    by (simp add: sample_items_ok_def)
  have h6: "''S_fa'' \<in> set feedstock_keys"
    by (simp add: feedstock_keys_def)
  from kinetics_gate_and_feedstock_recording [where json_loads = sample_json_loads
      and str_to_float = sample_str_to_float, OF h1 h2 h3]
  obtain ex reported where
    p: "parse_ai_recommendations sample_json_loads sample_str_to_float sample_object_ok False
          = Inr (ex, reported)"
    and g: "kinetic_values ex = []" "kinetic_explanations ex = []"
    and r: "list_all (\<lambda>(k, arr). entry_converts sample_str_to_float arr) sample_items_ok \<longrightarrow>
              reported = []
              \<and> (\<forall>key xs val.
                    (key, PList xs) \<in> set sample_items_ok \<and> 3 \<le> length xs
                    \<and> key \<in> set feedstock_keys
                    \<and> py_float sample_str_to_float (xs ! 0) = Inr val \<longrightarrow>
                    map_of (feedstock_values ex) key = Some val
                    \<and> map_of (feedstock_explanations ex) key = Some (xs ! 2))"
    by blast
  from r h4 have rep: "reported = []" and
    all: "\<forall>key xs val.
            (key, PList xs) \<in> set sample_items_ok \<and> 3 \<le> length xs
            \<and> key \<in> set feedstock_keys
            \<and> py_float sample_str_to_float (xs ! 0) = Inr val \<longrightarrow>
            map_of (feedstock_values ex) key = Some val
            \<and> map_of (feedstock_explanations ex) key = Some (xs ! 2)"
    by blast+
  from all [rule_format, of "''S_fa''" "[PFloat (1 / 2), PStr ''kg/m3'', PStr ''fat'']" "1 / 2"]
    h5 h6
  have v: "map_of (feedstock_values ex) ''S_fa'' = Some (1 / 2)
           \<and> map_of (feedstock_explanations ex) ''S_fa'' = Some (PStr ''fat'')"
    by simp
  from h1 h2 h3 h4 h5 h6 p g rep v show ?thesis by blast
qed

text \<open>
  C5 (extractor key gating).  With \<open>include_kinetics\<close> false, the object has the kinetic
  entry \<open>k_su\<close>, whose first element \<open>float\<close> rejects, and then the well-formed feedstock
  entry \<open>S_fa\<close>.  The kinetic dictionaries come back empty, but \<open>float\<close> runs on the kinetic
  entry before its key is classified: the \<open>ValueError\<close> leaves the loop, it is reported
  with \<open>st.error\<close>, and \<open>S_fa\<close> is not recorded, although the function is documented to
  look only for feedstock keys when \<open>include_kinetics\<close> is false.
\<close>

theorem extractor_gating_drops_feedstock:
  "sample_json_loads sample_object_gate
     = Inr (PDict [(''k_su'', PList [PStr ''x'', PStr ''d^-1'', PStr ''rate'']),
                   (''S_fa'', PList [PFloat (1 / 2), PStr ''kg/m3'', PStr ''fat''])])
   \<and> ''S_fa'' \<in> set feedstock_keys
   \<and> py_float sample_str_to_float (PFloat (1 / 2)) = Inr (1 / 2)
   \<and> parse_ai_recommendations sample_json_loads sample_str_to_float sample_object_gate False
       = Inr (\<lparr>feedstock_values = [], feedstock_explanations = [],
               kinetic_values = [], kinetic_explanations = []\<rparr>, [ValueError])"
  by (simp add: sample_eval)

section \<open>Storing the recommendations\<close>

text \<open>
  C9 (override sets untouched on parse failure).  When the response text has no substring
  in braces, or \<open>json.loads\<close> raises on that substring, the handler returns normally and
  leaves \<open>influent_values\<close>, \<open>influent_explanations\<close>, \<open>kinetic_params\<close> and
  \<open>kinetic_explanations\<close> of the session as they were.
\<close>

theorem override_sets_untouched:
  assumes "json_match response_text = None
           \<or> (\<exists>matched e. json_match response_text = Some matched \<and> json_loads matched = Inl e)"
  shows "\<exists>s'. main_store_recommendations json_loads str_to_float (Some response_text) s = Inr s'
           \<and> influent_values s' = influent_values s
           \<and> influent_explanations s' = influent_explanations s
           \<and> kinetic_params s' = kinetic_params s
           \<and> kinetic_session_explanations s' = kinetic_session_explanations s"
proof -
  from parse_failure_empty [OF assms]
  obtain reported where
    "parse_ai_recommendations json_loads str_to_float response_text (use_kinetics s)
       = Inr (empty_extraction, reported)"
    by blast
  then show ?thesis
    by (simp add: main_store_recommendations_def empty_extraction_def Let_def)
qed

text \<open>A response with no JSON, on a session that already holds overrides.\<close>

theorem override_sets_untouched_witness:
  "(json_match ''Sorry, {no json}'' = None
    \<or> (\<exists>matched e. json_match ''Sorry, {no json}'' = Some matched
                     \<and> sample_json_loads matched = Inl e))
   \<and> (\<exists>s'. main_store_recommendations sample_json_loads sample_str_to_float
               (Some ''Sorry, {no json}'') sample_session = Inr s'
             \<and> influent_values s' = [(''S_su'', 1 / 2)]
             \<and> influent_explanations s' = [(''S_su'', PStr ''measured'')]
             \<and> kinetic_params s' = [(''k_su'', 30)]
             \<and> kinetic_session_explanations s' = [])"
proof -
  have m: "json_match ''Sorry, {no json}'' = Some ''{no json}''"
    by (simp add: json_match_def)
  have l: "sample_json_loads ''{no json}'' = Inl JSONDecodeError"
    by (simp add: sample_eval)
  have h: "json_match ''Sorry, {no json}'' = None
    \<or> (\<exists>matched e. json_match ''Sorry, {no json}'' = Some matched
                     \<and> sample_json_loads matched = Inl e)"
    using m l by blast
  from override_sets_untouched [OF h, of sample_str_to_float sample_session]
  have "\<exists>s'. main_store_recommendations sample_json_loads sample_str_to_float
               (Some ''Sorry, {no json}'') sample_session = Inr s'
             \<and> influent_values s' = [(''S_su'', 1 / 2)]
             \<and> influent_explanations s' = [(''S_su'', PStr ''measured'')]
             \<and> kinetic_params s' = [(''k_su'', 30)]
             \<and> kinetic_session_explanations s' = []"
    by (simp add: sample_session_def)
  with h show ?thesis by blast
qed

end
